theory Spec2Isabelle
  imports Complex_Main "HOL-Library.AList"
begin

section \<open>Data model of the orchestration loop (ai\_generator.py)\<close>

text \<open>
  Tool arguments are a keyword dictionary (\<^verbatim>\<open>content_block.input\<close>); its values are
  strings or integers in the tool schemas of this repository.
\<close>

datatype arg_value = StrArg string | IntArg int

type_synonym tool_input = "(string \<times> arg_value) list"

text \<open>
  A content block of a model response. The code reads \<^verbatim>\<open>.type\<close>, and then either
  \<^verbatim>\<open>.text\<close> or \<^verbatim>\<open>.name\<close>, \<^verbatim>\<open>.id\<close>, \<^verbatim>\<open>.input\<close>. The arguments of \<open>ToolUseBlock\<close> are
  name, id and input, in that order.
\<close>

datatype content_block =
    TextBlock string
  | ToolUseBlock string string tool_input

record response =
  stop_reason :: string
  content :: "content_block list"

text \<open>
  A tool result dictionary \<^verbatim>\<open>{"type": "tool_result", "tool_use_id": ..., "content": ...}\<close>;
  the \<^verbatim>\<open>type\<close> entry is the same constant in every result and is left out.
\<close>

record tool_result =
  tool_use_id :: string
  result_content :: string

text \<open>
  A message dictionary \<^verbatim>\<open>{"role": ..., "content": ...}\<close>. Its content is the query
  string, the content blocks of a model response, or a list of tool results.
\<close>

datatype message_content =
    Text string
  | Blocks "content_block list"
  | Results "tool_result list"

record message =
  role :: string
  msg_content :: message_content

record ('s, 't) conversation_state =
  messages :: "message list"
  round_count :: nat
  max_rounds :: nat
  tools :: "'s list option"
  tool_manager :: "'t option"

record round_response =
  claude_response :: "response option"
  has_tool_calls :: bool
  tool_results :: "tool_result list"
  final_text :: "string option"
  error :: "string option"

text \<open>The keyword arguments of \<^verbatim>\<open>self.client.messages.create\<close>.\<close>

record 's api_params =
  model :: string
  temperature :: nat
  max_tokens :: nat
  api_messages :: "message list"
  api_system :: string
  api_tools :: "'s list option"
  api_tool_choice :: "string option"

text \<open>
  The generator object: the class constant \<^verbatim>\<open>SYSTEM_PROMPT\<close> and the model name from
  which \<^verbatim>\<open>__init__\<close> builds \<^verbatim>\<open>base_params\<close> (temperature 0, 800 tokens).
\<close>

record ai_generator =
  SYSTEM_PROMPT :: string
  gen_model :: string

text \<open>
  The two collaborators are stateful objects that may raise. A call takes the object's
  state and returns the new state together with either the message of the raised
  exception (\<open>Inl\<close>, what \<^verbatim>\<open>str(e)\<close> gives) or the returned value (\<open>Inr\<close>). Only
  subclasses of \<^verbatim>\<open>Exception\<close> are modelled, those are what the code catches.
\<close>

type_synonym ('c, 's) create = "'c \<Rightarrow> 's api_params \<Rightarrow> (string + response) \<times> 'c"

type_synonym 't execute_tool = "'t \<Rightarrow> string \<Rightarrow> tool_input \<Rightarrow> (string + string) \<times> 't"

text \<open>
  The world outside the generator: the state of the model client, and the two logs of
  what the generator did to its collaborators, in the order of the calls: every model
  call with its parameters and outcome, every tool execution with name, arguments and
  outcome.
\<close>

type_synonym 's model_call = "'s api_params \<times> (string + response)"

type_synonym tool_call = "string \<times> tool_input \<times> (string + string)"

record ('c, 's) world =
  client :: 'c
  model_calls :: "'s model_call list"
  tool_calls :: "tool_call list"

section \<open>Python helpers\<close>

text \<open>Truthiness of an \<^verbatim>\<open>Optional[str]\<close>: neither \<^verbatim>\<open>None\<close> nor the empty string.\<close>

definition truthy :: "string option \<Rightarrow> bool" where
  "truthy s = (case s of None \<Rightarrow> False | Some t \<Rightarrow> t \<noteq> [])"

text \<open>Truthiness of an \<^verbatim>\<open>Optional[List]\<close>: neither \<^verbatim>\<open>None\<close> nor the empty list.\<close>

definition truthy_list :: "'a list option \<Rightarrow> bool" where
  "truthy_list xs = (case xs of None \<Rightarrow> False | Some ys \<Rightarrow> ys \<noteq> [])"

definition index_error :: string where
  "index_error = ''list index out of range''"

definition attribute_error :: string where
  "attribute_error =
     [CHR 0x27] @ ''ToolUseBlock'' @ [CHR 0x27] @ '' object has no attribute '' @
     [CHR 0x27] @ ''text'' @ [CHR 0x27]"

definition none_error :: string where
  "none_error =
     [CHR 0x27] @ ''NoneType'' @ [CHR 0x27] @ '' object has no attribute '' @
     [CHR 0x27] @ ''content'' @ [CHR 0x27]"

text \<open>
  \<^verbatim>\<open>claude_response.content[0].text\<close>: an empty list raises IndexError, a first block
  without a text attribute raises AttributeError.
\<close>

definition first_text :: "content_block list \<Rightarrow> string + string" where
  "first_text bs =
     (case bs of
        [] \<Rightarrow> Inl index_error
      | TextBlock t # _ \<Rightarrow> Inr t
      | ToolUseBlock _ _ _ # _ \<Rightarrow> Inl attribute_error)"

section \<open>The generator\<close>

definition base_api_params :: "ai_generator \<Rightarrow> message list \<Rightarrow> string \<Rightarrow> 's api_params" where
  "base_api_params self msgs system_content =
     \<lparr>model = gen_model self, temperature = 0, max_tokens = 800,
      api_messages = msgs, api_system = system_content,
      api_tools = None, api_tool_choice = None\<rparr>"

text \<open>One call of \<^verbatim>\<open>self.client.messages.create(**api_params)\<close>, logged.\<close>

definition call_model ::
  "('c, 's) create \<Rightarrow> 's api_params \<Rightarrow> ('c, 's) world \<Rightarrow> (string + response) \<times> ('c, 's) world" where
  "call_model create p w =
     (case create (client w) p of
        (r, c') \<Rightarrow> (r, w\<lparr>client := c', model_calls := model_calls w @ [(p, r)]\<rparr>))"

text \<open>
  \<^verbatim>\<open>_handle_tool_execution\<close>: the loop over the content blocks, with the list
  \<^verbatim>\<open>tool_results\<close> it appends to, the tool manager and the log of executions.
\<close>

fun handle_blocks ::
  "'t execute_tool \<Rightarrow> content_block list \<Rightarrow> 't \<Rightarrow> tool_result list \<Rightarrow> tool_call list
     \<Rightarrow> tool_result list \<times> 't \<times> tool_call list" where
  "handle_blocks exec [] tm results tlog = (results, tm, tlog)"
| "handle_blocks exec (TextBlock t # bs) tm results tlog = handle_blocks exec bs tm results tlog"
| "handle_blocks exec (ToolUseBlock name ident inp # bs) tm results tlog =
     (case exec tm name inp of
        (Inr tool_result, tm') \<Rightarrow>
          handle_blocks exec bs tm'
            (results @ [\<lparr>tool_use_id = ident, result_content = tool_result\<rparr>])
            (tlog @ [(name, inp, Inr tool_result)])
      | (Inl e, tm') \<Rightarrow>
          handle_blocks exec bs tm'
            (results @ [\<lparr>tool_use_id = ident,
                         result_content = ''Tool execution failed: '' @ e\<rparr>])
            (tlog @ [(name, inp, Inl e)]))"

definition handle_tool_execution ::
  "'t execute_tool \<Rightarrow> response \<Rightarrow> 't \<Rightarrow> ('c, 's) world
     \<Rightarrow> tool_result list \<times> 't \<times> ('c, 's) world" where
  "handle_tool_execution exec claude_resp tm w =
     (case handle_blocks exec (content claude_resp) tm [] (tool_calls w) of
        (results, tm', tlog) \<Rightarrow> (results, tm', w\<lparr>tool_calls := tlog\<rparr>))"

text \<open>
  The parameters of a round's model call: the tool schemas and the automatic tool choice
  are added only when \<^verbatim>\<open>state.tools\<close> is truthy.
\<close>

definition round_params :: "ai_generator \<Rightarrow> ('s, 't) conversation_state \<Rightarrow> string \<Rightarrow> 's api_params" where
  "round_params self state system_content =
     (let p0 = base_api_params self (messages state) system_content
      in if truthy_list (tools state)
         then p0\<lparr>api_tools := tools state, api_tool_choice := Some ''auto''\<rparr>
         else p0)"

text \<open>
  \<^verbatim>\<open>_execute_single_round\<close>. Everything is inside one \<^verbatim>\<open>try\<close>: a raising model call
  and a raising read of the first block's text both end in the \<^verbatim>\<open>except\<close> branch.
\<close>

definition execute_single_round ::
  "('c, 's) create \<Rightarrow> 't execute_tool \<Rightarrow> ai_generator \<Rightarrow> ('s, 't) conversation_state \<Rightarrow> string
     \<Rightarrow> ('c, 's) world \<Rightarrow> round_response \<times> ('s, 't) conversation_state \<times> ('c, 's) world" where
  "execute_single_round create exec self state system_content w =
     (case call_model create (round_params self state system_content) w of
           (Inl e, w1) \<Rightarrow>
             (\<lparr>claude_response = None, has_tool_calls = False, tool_results = [],
               final_text = None, error = Some e\<rparr>, state, w1)
         | (Inr r, w1) \<Rightarrow>
             (case (if stop_reason r = ''tool_use'' then tool_manager state else None) of
                Some tm \<Rightarrow>
                  (case handle_tool_execution exec r tm w1 of
                     (results, tm', w2) \<Rightarrow>
                       (\<lparr>claude_response = Some r, has_tool_calls = True,
                         tool_results = results, final_text = None, error = None\<rparr>,
                        state\<lparr>tool_manager := Some tm'\<rparr>, w2))
              | None \<Rightarrow>
                  (case first_text (content r) of
                     Inr t \<Rightarrow>
                       (\<lparr>claude_response = Some r, has_tool_calls = False,
                         tool_results = [], final_text = Some t, error = None\<rparr>, state, w1)
                   | Inl e \<Rightarrow>
                       (\<lparr>claude_response = None, has_tool_calls = False,
                         tool_results = [], final_text = None, error = Some e\<rparr>, state, w1))))"

definition should_terminate :: "round_response \<Rightarrow> nat \<Rightarrow> nat \<Rightarrow> bool" where
  "should_terminate rr round_num max_r =
     (if truthy (error rr) then True
      else if \<not> has_tool_calls rr then True
      else False)"

text \<open>
  \<^verbatim>\<open>_prepare_next_round\<close>. Reading \<^verbatim>\<open>.content\<close> of a \<^verbatim>\<open>claude_response\<close> that is
  \<^verbatim>\<open>None\<close> raises, and nothing catches it: \<open>Inl\<close> is that exception.
\<close>

definition prepare_next_round ::
  "('s, 't) conversation_state \<Rightarrow> round_response \<Rightarrow> string + ('s, 't) conversation_state" where
  "prepare_next_round state rr =
     (case claude_response rr of
        None \<Rightarrow> Inl none_error
      | Some r \<Rightarrow>
          (let msgs1 = messages state @ [\<lparr>role = ''assistant'', msg_content = Blocks (content r)\<rparr>];
               msgs2 = (if tool_results rr \<noteq> []
                        then msgs1 @ [\<lparr>role = ''user'', msg_content = Results (tool_results rr)\<rparr>]
                        else msgs1)
           in Inr (state\<lparr>messages := msgs2\<rparr>)))"

definition get_final_response ::
  "('c, 's) create \<Rightarrow> ai_generator \<Rightarrow> ('s, 't) conversation_state \<Rightarrow> string \<Rightarrow> ('c, 's) world
     \<Rightarrow> string \<times> ('c, 's) world" where
  "get_final_response create self state system_content w =
     (case call_model create (base_api_params self (messages state) system_content) w of
        (Inl e, w1) \<Rightarrow> (''Error generating final response: '' @ e, w1)
      | (Inr r, w1) \<Rightarrow>
          (case first_text (content r) of
             Inr t \<Rightarrow> (t, w1)
           | Inl e \<Rightarrow> (''Error generating final response: '' @ e, w1)))"

text \<open>
  The \<^verbatim>\<open>for round_num in range(1, state.max_rounds + 1)\<close> loop of
  \<^verbatim>\<open>generate_response\<close>, over the round numbers still to run, and the call after it.
  The result is \<open>Inr\<close> of the returned string, or \<open>Inl\<close> of an exception that leaves
  \<^verbatim>\<open>generate_response\<close>.
\<close>

fun rounds ::
  "('c, 's) create \<Rightarrow> 't execute_tool \<Rightarrow> ai_generator \<Rightarrow> string \<Rightarrow> nat list
     \<Rightarrow> ('s, 't) conversation_state \<Rightarrow> ('c, 's) world
     \<Rightarrow> (string + string) \<times> ('s, 't) conversation_state \<times> ('c, 's) world" where
  "rounds create exec self system_content [] state w =
     (case get_final_response create self state system_content w of
        (s, w1) \<Rightarrow> (Inr s, state, w1))"
| "rounds create exec self system_content (round_num # rest) state w =
     (case execute_single_round create exec self (state\<lparr>round_count := round_num\<rparr>)
             system_content w of
        (rr, state1, w1) \<Rightarrow>
          if should_terminate rr round_num (max_rounds state1) then
            (if truthy (final_text rr) then (Inr (the (final_text rr)), state1, w1)
             else if truthy (error rr) then (Inr (''Error: '' @ the (error rr)), state1, w1)
             else (Inr ''No response generated'', state1, w1))
          else
            (case prepare_next_round state1 rr of
               Inl e \<Rightarrow> (Inl e, state1, w1)
             | Inr state2 \<Rightarrow> rounds create exec self system_content rest state2 w1))"

definition system_content_of :: "ai_generator \<Rightarrow> string option \<Rightarrow> string" where
  "system_content_of self conversation_history =
     (if truthy conversation_history
      then SYSTEM_PROMPT self @ [CHR 0x0A, CHR 0x0A] @ ''Previous conversation:'' @ [CHR 0x0A]
           @ the conversation_history
      else SYSTEM_PROMPT self)"

definition initial_state :: "string \<Rightarrow> 's list option \<Rightarrow> 't option \<Rightarrow> ('s, 't) conversation_state" where
  "initial_state query tls tm =
     \<lparr>messages = [\<lparr>role = ''user'', msg_content = Text query\<rparr>],
      round_count = 0, max_rounds = 2, tools = tls, tool_manager = tm\<rparr>"

definition generate_response ::
  "('c, 's) create \<Rightarrow> 't execute_tool \<Rightarrow> ai_generator \<Rightarrow> string \<Rightarrow> string option
     \<Rightarrow> 's list option \<Rightarrow> 't option \<Rightarrow> ('c, 's) world
     \<Rightarrow> (string + string) \<times> ('s, 't) conversation_state \<times> ('c, 's) world" where
  "generate_response create exec self query conversation_history tls tm w =
     (let state = initial_state query tls tm;
          system_content = system_content_of self conversation_history
      in rounds create exec self system_content [1 ..< max_rounds state + 1] state w)"

section \<open>The retrieval tool and the tool registry\<close>

text \<open>
  Modelled from the spec: the Search Result Set and the Source Citation of section 3.
  The module that declares them (vector\_store.py) is not among the sources; the tests
  build result sets with these fields.
\<close>

record chunk_meta =
  course_title :: string
  lesson_number :: "int option"
  chunk_index :: nat

record search_results =
  documents :: "string list"
  metadata :: "chunk_meta list"
  distances :: "real list"
  search_error :: "string option"

record citation =
  display_text :: string
  url :: "string option"

text \<open>
  Modelled from the spec: the retrieval collaborator interface of section 6, as far as the
  search tool consumes it: \<^verbatim>\<open>search(query, course_name?, lesson_number?)\<close> and
  \<^verbatim>\<open>get_lesson_info(course_title, lesson_number) -> (title?, url?)\<close>.
\<close>

record store =
  search :: "string \<Rightarrow> string option \<Rightarrow> int option \<Rightarrow> search_results"
  get_lesson_info :: "string \<Rightarrow> int \<Rightarrow> string option \<times> string option"

text \<open>
  Modelled from the spec: the state of the retrieval tool is its list of citations
  (section 3, Source Citation); search\_tools.py is not among the sources.
\<close>

record search_tool =
  citations :: "citation list"

text \<open>Python's \<^verbatim>\<open>str\<close> of an integer, which the format strings apply.\<close>

fun str_nat :: "nat \<Rightarrow> string" where
  "str_nat n =
     (if n < 10 then [''0123456789'' ! n]
      else str_nat (n div 10) @ [''0123456789'' ! (n mod 10)])"

definition str_int :: "int \<Rightarrow> string" where
  "str_int i = (if i < 0 then ''-'' @ str_nat (nat (- i)) else str_nat (nat i))"

text \<open>Python's \<^verbatim>\<open>sep.join(parts)\<close>.\<close>

fun join :: "string \<Rightarrow> string list \<Rightarrow> string" where
  "join sep [] = []"
| "join sep [x] = x"
| "join sep (x # y # ys) = x @ sep @ join sep (y # ys)"

text \<open>
  Modelled from the spec: the search execution of section 4.1 (\<^verbatim>\<open>CourseSearchTool.execute\<close>
  of search\_tools.py, which is not among the sources). The filter context stands before
  the full stop, as in the scenario of section 8 and in test\_course\_search\_tool.py.
\<close>

definition filter_info :: "string option \<Rightarrow> int option \<Rightarrow> string" where
  "filter_info course lesson =
     (case course of None \<Rightarrow> [] | Some c \<Rightarrow> '' in course '' @ [CHR 0x27] @ c @ [CHR 0x27]) @
     (case lesson of None \<Rightarrow> [] | Some n \<Rightarrow> '' in lesson '' @ str_int n)"

definition format_block :: "string \<times> chunk_meta \<Rightarrow> string" where
  "format_block row =
     (case row of (doc, meta) \<Rightarrow>
        ''['' @ course_title meta @
        (case lesson_number meta of None \<Rightarrow> [] | Some n \<Rightarrow> '' - Lesson '' @ str_int n) @
        '']'' @ [CHR 0x0A] @ doc)"

definition citation_of :: "store \<Rightarrow> string \<times> chunk_meta \<Rightarrow> citation" where
  "citation_of st row =
     (case row of (doc, meta) \<Rightarrow>
        (case lesson_number meta of
           None \<Rightarrow> \<lparr>display_text = course_title meta, url = None\<rparr>
         | Some n \<Rightarrow>
             (case get_lesson_info st (course_title meta) n of
                (Some title, link) \<Rightarrow>
                  \<lparr>display_text = ''Lesson '' @ str_int n @ '': '' @ title, url = link\<rparr>
              | (None, link) \<Rightarrow> \<lparr>display_text = ''Lesson '' @ str_int n, url = link\<rparr>)))"

definition rows :: "search_results \<Rightarrow> (string \<times> chunk_meta) list" where
  "rows rs = zip (documents rs) (metadata rs)"

definition format_results :: "store \<Rightarrow> search_tool \<Rightarrow> search_results \<Rightarrow> string \<times> search_tool" where
  "format_results st tool rs =
     (join [CHR 0x0A, CHR 0x0A] (map format_block (rows rs)),
      tool\<lparr>citations := map (citation_of st) (rows rs)\<rparr>)"

definition search_execute ::
  "store \<Rightarrow> search_tool \<Rightarrow> string \<Rightarrow> string option \<Rightarrow> int option \<Rightarrow> string \<times> search_tool" where
  "search_execute st tool query course lesson =
     (let rs = search st query course lesson
      in case search_error rs of
           Some e \<Rightarrow> (e, tool\<lparr>citations := []\<rparr>)
         | None \<Rightarrow>
             if rows rs = []
             then (''No relevant content found'' @ filter_info course lesson @ ''.'',
                   tool\<lparr>citations := []\<rparr>)
             else format_results st tool rs)"

text \<open>
  Modelled from the spec: the tool registry of section 4.2 (\<^verbatim>\<open>ToolManager\<close> of
  search\_tools.py, which is not among the sources). The registry is the list of registered
  tools with their names, in registration order; \<open>tool_execute\<close> is the
  \<^verbatim>\<open>execute\<close> method of the tools.
\<close>

type_synonym 'a registry = "(string \<times> 'a) list"

definition register :: "'a registry \<Rightarrow> string \<Rightarrow> 'a \<Rightarrow> 'a registry" where
  "register reg name tool = AList.update name tool reg"

definition not_found :: "string \<Rightarrow> string" where
  "not_found name = ''Tool '' @ [CHR 0x27] @ name @ [CHR 0x27] @ '' not found''"

definition registry_execute ::
  "('a \<Rightarrow> tool_input \<Rightarrow> (string + string) \<times> 'a) \<Rightarrow> 'a registry execute_tool" where
  "registry_execute tool_execute reg name args =
     (case map_of reg name of
        None \<Rightarrow> (Inr (not_found name), reg)
      | Some tool \<Rightarrow>
          (case tool_execute tool args of
             (out, tool') \<Rightarrow> (out, AList.update name tool' reg)))"

section \<open>Vocabulary for the properties\<close>

text \<open>The outcome of a model call made in world \<open>w\<close>, and the world after it.\<close>

definition outcome :: "('c, 's) create \<Rightarrow> ('c, 's) world \<Rightarrow> 's api_params \<Rightarrow> string + response" where
  "outcome create w p = fst (create (client w) p)"

definition after_call :: "('c, 's) create \<Rightarrow> ('c, 's) world \<Rightarrow> 's api_params \<Rightarrow> ('c, 's) world" where
  "after_call create w p =
     w\<lparr>client := snd (create (client w) p),
       model_calls := model_calls w @ [(p, fst (create (client w) p))]\<rparr>"

text \<open>What an invocation added to the two logs.\<close>

definition new_model_calls :: "('c, 's) world \<Rightarrow> ('c, 's) world \<Rightarrow> 's model_call list" where
  "new_model_calls w w' = drop (length (model_calls w)) (model_calls w')"

definition new_tool_calls :: "('c, 's) world \<Rightarrow> ('c, 's) world \<Rightarrow> tool_call list" where
  "new_tool_calls w w' = drop (length (tool_calls w)) (tool_calls w')"

text \<open>A model call's outcome requests tool use: it is a response that stopped for it.\<close>

fun requests_tools :: "string + response \<Rightarrow> bool" where
  "requests_tools (Inr r) = (stop_reason r = ''tool_use'')"
| "requests_tools (Inl e) = False"

text \<open>The tool-use blocks of a response content, as (name, id, input), in order.\<close>

fun tool_uses :: "content_block list \<Rightarrow> (string \<times> string \<times> tool_input) list" where
  "tool_uses [] = []"
| "tool_uses (TextBlock t # bs) = tool_uses bs"
| "tool_uses (ToolUseBlock name ident inp # bs) = (name, ident, inp) # tool_uses bs"

text \<open>
  Running the tool manager on a list of tool uses, one after the other: the outcomes in
  order, and the manager afterwards.
\<close>

fun run_tools ::
  "'t execute_tool \<Rightarrow> 't \<Rightarrow> (string \<times> string \<times> tool_input) list \<Rightarrow> (string + string) list \<times> 't" where
  "run_tools exec tm [] = ([], tm)"
| "run_tools exec tm ((name, ident, inp) # us) =
     (case exec tm name inp of
        (out, tm') \<Rightarrow> (case run_tools exec tm' us of (outs, tm'') \<Rightarrow> (out # outs, tm'')))"

text \<open>The tool result and the log entry that belong to one tool use and its outcome.\<close>

fun result_of :: "string \<times> string \<times> tool_input \<Rightarrow> string + string \<Rightarrow> tool_result" where
  "result_of (name, ident, inp) (Inr s) = \<lparr>tool_use_id = ident, result_content = s\<rparr>"
| "result_of (name, ident, inp) (Inl e) =
     \<lparr>tool_use_id = ident, result_content = ''Tool execution failed: '' @ e\<rparr>"

fun call_of :: "string \<times> string \<times> tool_input \<Rightarrow> string + string \<Rightarrow> tool_call" where
  "call_of (name, ident, inp) out = (name, inp, out)"

definition round_results :: "'t execute_tool \<Rightarrow> 't \<Rightarrow> response \<Rightarrow> tool_result list" where
  "round_results exec tm r =
     map2 result_of (tool_uses (content r)) (fst (run_tools exec tm (tool_uses (content r))))"

definition round_calls :: "'t execute_tool \<Rightarrow> 't \<Rightarrow> response \<Rightarrow> tool_call list" where
  "round_calls exec tm r =
     map2 call_of (tool_uses (content r)) (fst (run_tools exec tm (tool_uses (content r))))"

text \<open>The messages after a round with tool calls.\<close>

definition next_messages :: "message list \<Rightarrow> response \<Rightarrow> tool_result list \<Rightarrow> message list" where
  "next_messages msgs r results =
     msgs @ [\<lparr>role = ''assistant'', msg_content = Blocks (content r)\<rparr>] @
     (if results \<noteq> [] then [\<lparr>role = ''user'', msg_content = Results results\<rparr>] else [])"

text \<open>
  What a round returns for a response it takes as final: the first block's text, the
  fixed string when that text is empty, the error string when reading it raises.
\<close>

definition text_result :: "response \<Rightarrow> string" where
  "text_result r =
     (case first_text (content r) of
        Inr t \<Rightarrow> if t = [] then ''No response generated'' else t
      | Inl e \<Rightarrow> ''Error: '' @ e)"

text \<open>What a round returns when its model call raises with message \<open>e\<close>.\<close>

definition error_result :: "string \<Rightarrow> string" where
  "error_result e = (if e = [] then ''No response generated'' else ''Error: '' @ e)"

text \<open>Performing logged tool executions again, from a given manager state.\<close>

fun replay :: "'t execute_tool \<Rightarrow> 't \<Rightarrow> tool_call list \<Rightarrow> 't" where
  "replay exec tm [] = tm"
| "replay exec tm ((name, inp, out) # cs) = replay exec (snd (exec tm name inp)) cs"

section \<open>Concrete collaborators\<close>

text \<open>
  A client that answers from a fixed list of outcomes, one per call, as the mocks of
  test\_ai\_generator.py do with \<^verbatim>\<open>side_effect\<close>; its state is the rest of the list. An
  exhausted list raises \<^verbatim>\<open>StopIteration\<close>, whose message is empty.
\<close>

fun scripted :: "((string + response) list, 's) create" where
  "scripted [] p = (Inl [], [])"
| "scripted (out # outs) p = (out, outs)"

definition start :: "(string + response) list \<Rightarrow> ((string + response) list, 's) world" where
  "start script = \<lparr>client = script, model_calls = [], tool_calls = []\<rparr>"

text \<open>A tool manager without state: the tool \<open>fail\<close> raises, every other tool answers.\<close>

definition demo_tools :: "unit execute_tool" where
  "demo_tools tm name inp =
     (if name = ''fail'' then (Inl ''boom'', tm) else (Inr (''result of '' @ name), tm))"

definition demo_generator :: ai_generator where
  "demo_generator = \<lparr>SYSTEM_PROMPT = ''You are an AI assistant'', gen_model = ''claude''\<rparr>"

definition text_response :: "string \<Rightarrow> response" where
  "text_response t = \<lparr>stop_reason = ''end_turn'', content = [TextBlock t]\<rparr>"

definition tool_response :: "string \<Rightarrow> string \<Rightarrow> response" where
  "tool_response name ident =
     \<lparr>stop_reason = ''tool_use'', content = [ToolUseBlock name ident [(''query'', StrArg ''x'')]]\<rparr>"

text \<open>The parameters of the first model call of an invocation.\<close>

definition first_params ::
  "ai_generator \<Rightarrow> string \<Rightarrow> string option \<Rightarrow> 's list option \<Rightarrow> 's api_params" where
  "first_params self query hist tls =
     round_params self (initial_state query tls (None :: unit option)) (system_content_of self hist)"

text \<open>Scripts and responses for the examples.\<close>

definition always_tools :: "(string + response) list" where
  "always_tools =
     [Inr (tool_response ''search_course_content'' ''t1''),
      Inr (tool_response ''search_course_content'' ''t2''),
      Inr (tool_response ''search_course_content'' ''t3'')]"

definition demo_schemas :: "string list option" where
  "demo_schemas = Some [''search_course_content'']"

definition failing_second :: "(string + response) list" where
  "failing_second =
     [Inr (tool_response ''search_course_content'' ''t1''), Inl ''API rate limit exceeded'']"

definition failing_final :: "(string + response) list" where
  "failing_final =
     [Inr (tool_response ''search_course_content'' ''t1''),
      Inr (tool_response ''search_course_content'' ''t2''), Inl ''boom'']"

definition narrated_tool_use :: response where
  "narrated_tool_use =
     \<lparr>stop_reason = ''tool_use'',
      content = [TextBlock ''Let me search.'',
                 ToolUseBlock ''search_course_content'' ''t1'' [(''query'', StrArg ''x'')]]\<rparr>"

definition silent_tool_use :: response where
  "silent_tool_use =
     \<lparr>stop_reason = ''tool_use'',
      content = [TextBlock [],
                 ToolUseBlock ''search_course_content'' ''t1'' [(''query'', StrArg ''x'')]]\<rparr>"

definition two_tool_uses :: response where
  "two_tool_uses =
     \<lparr>stop_reason = ''tool_use'',
      content = [TextBlock ''Searching.'',
                 ToolUseBlock ''fail'' ''a'' [(''query'', StrArg ''x'')],
                 ToolUseBlock ''search_course_content'' ''b'' [(''query'', StrArg ''y'')]]\<rparr>"

definition truncated_tool_use :: response where
  "truncated_tool_use =
     \<lparr>stop_reason = ''max_tokens'',
      content = [TextBlock ''Let me search.'',
                 ToolUseBlock ''search_course_content'' ''t1'' [(''query'', StrArg ''x'')]]\<rparr>"

definition two_then_done :: "(string + response) list" where
  "two_then_done = [Inr two_tool_uses, Inr (text_response ''done'')]"

definition bogus_then_done :: "(string + response) list" where
  "bogus_then_done = [Inr (tool_response ''bogus'' ''t1''), Inr (text_response ''done'')]"

text \<open>A store, a search tool and a registry for the examples.\<close>

definition demo_search :: "string \<Rightarrow> string option \<Rightarrow> int option \<Rightarrow> search_results" where
  "demo_search query course lesson =
     (if query = ''down''
      then \<lparr>documents = [], metadata = [], distances = [],
            search_error = Some ''Database connection failed''\<rparr>
      else if query = ''ml''
      then \<lparr>documents = [''ML is a subset of AI.'', ''Course overview''],
            metadata = [\<lparr>course_title = ''Intro to ML'', lesson_number = Some 1, chunk_index = 0\<rparr>,
                        \<lparr>course_title = ''Intro to ML'', lesson_number = None, chunk_index = 1\<rparr>],
            distances = [0, 1], search_error = None\<rparr>
      else if query = ''regression''
      then \<lparr>documents = [''Linear regression models a relationship.''],
            metadata = [\<lparr>course_title = ''Intro to ML'', lesson_number = Some 2, chunk_index = 5\<rparr>],
            distances = [0], search_error = None\<rparr>
      else \<lparr>documents = [], metadata = [], distances = [], search_error = None\<rparr>)"

definition demo_lesson_info :: "string \<Rightarrow> int \<Rightarrow> string option \<times> string option" where
  "demo_lesson_info title n =
     (if n = 1 then (Some ''What is ML?'', Some ''https://example.com/lesson1'') else (None, None))"

definition demo_store :: store where
  "demo_store = \<lparr>search = demo_search, get_lesson_info = demo_lesson_info\<rparr>"

definition fresh_tool :: search_tool where
  "fresh_tool = \<lparr>citations = []\<rparr>"

definition demo_tool_execute :: "unit \<Rightarrow> tool_input \<Rightarrow> (string + string) \<times> unit" where
  "demo_tool_execute t args = (Inr ''found'', t)"

definition demo_registry :: "unit registry" where
  "demo_registry = register [] ''search_course_content'' ()"

section \<open>The tool loop\<close>

lemma length_run_tools: "length (fst (run_tools exec tm us)) = length us"
  by (induction exec tm us rule: run_tools.induct) (auto split: prod.splits)

lemma handle_blocks_run:
  "handle_blocks exec bs tm acc tlog =
     (acc @ map2 result_of (tool_uses bs) (fst (run_tools exec tm (tool_uses bs))),
      snd (run_tools exec tm (tool_uses bs)),
      tlog @ map2 call_of (tool_uses bs) (fst (run_tools exec tm (tool_uses bs))))"
  by (induction exec bs tm acc tlog rule: handle_blocks.induct)
     (auto split: prod.splits sum.splits)

lemma handle_tool_execution_eq:
  "handle_tool_execution exec r tm w =
     (round_results exec tm r, snd (run_tools exec tm (tool_uses (content r))),
      w\<lparr>tool_calls := tool_calls w @ round_calls exec tm r\<rparr>)"
  by (simp add: handle_tool_execution_def handle_blocks_run round_results_def round_calls_def)

section \<open>One round\<close>

lemma call_model_eq: "call_model create p w = (outcome create w p, after_call create w p)"
  by (simp add: call_model_def outcome_def after_call_def split: prod.splits)

lemma round_params_round_count [simp]:
  "round_params self (state\<lparr>round_count := n\<rparr>) sys = round_params self state sys"
  by (simp add: round_params_def Let_def)

lemma first_text_nonempty: "first_text bs = Inl e \<Longrightarrow> e \<noteq> []"
  by (auto simp: first_text_def index_error_def attribute_error_def
      split: list.splits content_block.splits)

lemma model_calls_after_call [simp]:
  "model_calls (after_call create w p) = model_calls w @ [(p, outcome create w p)]"
  by (simp add: after_call_def outcome_def)

lemma tool_calls_after_call [simp]: "tool_calls (after_call create w p) = tool_calls w"
  by (simp add: after_call_def)

lemma rounds_raise:
  assumes "outcome create w (round_params self state sys) = Inl e"
  shows "rounds create exec self sys (n # rest) state w =
           (Inr (error_result e), state\<lparr>round_count := n\<rparr>,
            after_call create w (round_params self state sys))"
  using assms
  by (simp add: execute_single_round_def call_model_eq should_terminate_def truthy_def
      error_result_def)

lemma rounds_text:
  assumes "outcome create w (round_params self state sys) = Inr r"
    and "stop_reason r \<noteq> ''tool_use'' \<or> tool_manager state = None"
  shows "rounds create exec self sys (n # rest) state w =
           (Inr (text_result r), state\<lparr>round_count := n\<rparr>,
            after_call create w (round_params self state sys))"
  using assms
  by (auto simp: execute_single_round_def call_model_eq should_terminate_def truthy_def
      text_result_def dest: first_text_nonempty split: sum.splits)

lemma rounds_tools:
  assumes "outcome create w (round_params self state sys) = Inr r"
    and "stop_reason r = ''tool_use''" and "tool_manager state = Some tm"
  shows "rounds create exec self sys (n # rest) state w =
           rounds create exec self sys rest
             (state\<lparr>round_count := n,
                    tool_manager := Some (snd (run_tools exec tm (tool_uses (content r)))),
                    messages := next_messages (messages state) r (round_results exec tm r)\<rparr>)
             ((after_call create w (round_params self state sys))
                \<lparr>tool_calls := tool_calls w @ round_calls exec tm r\<rparr>)"
  using assms
  by (simp add: execute_single_round_def call_model_eq should_terminate_def truthy_def
      handle_tool_execution_eq prepare_next_round_def next_messages_def after_call_def)

lemma rounds_final:
  "rounds create exec self sys [] state w =
     (Inr (case outcome create w (base_api_params self (messages state) sys) of
             Inl e \<Rightarrow> ''Error generating final response: '' @ e
           | Inr r \<Rightarrow> (case first_text (content r) of
                        Inr t \<Rightarrow> t
                      | Inl e \<Rightarrow> ''Error generating final response: '' @ e)),
      state, after_call create w (base_api_params self (messages state) sys))"
  by (simp add: get_final_response_def call_model_eq split: sum.splits)

lemma round_numbers: "[1 ..< max_rounds (initial_state query tls tm) + 1] = [1, 2]"
  by (simp add: initial_state_def upt_rec)

lemma generate_response_rounds:
  "generate_response create exec self query hist tls tm w =
     rounds create exec self (system_content_of self hist) [1, 2] (initial_state query tls tm) w"
  by (simp only: generate_response_def Let_def round_numbers)

declare rounds.simps [simp del]

section \<open>The loop over the rounds\<close>

lemma rounds_cases:
  assumes "rounds create exec self sys (n # rest) state w = (res, st', w')"
  obtains
    (raised) e where "outcome create w (round_params self state sys) = Inl e"
      "res = Inr (error_result e)" "st' = state\<lparr>round_count := n\<rparr>"
      "w' = after_call create w (round_params self state sys)"
  | (plain) r where "outcome create w (round_params self state sys) = Inr r"
      "stop_reason r \<noteq> ''tool_use'' \<or> tool_manager state = None"
      "res = Inr (text_result r)" "st' = state\<lparr>round_count := n\<rparr>"
      "w' = after_call create w (round_params self state sys)"
  | (tooled) r tm where "outcome create w (round_params self state sys) = Inr r"
      "stop_reason r = ''tool_use''" "tool_manager state = Some tm"
      "rounds create exec self sys rest
         (state\<lparr>round_count := n,
                tool_manager := Some (snd (run_tools exec tm (tool_uses (content r)))),
                messages := next_messages (messages state) r (round_results exec tm r)\<rparr>)
         ((after_call create w (round_params self state sys))
            \<lparr>tool_calls := tool_calls w @ round_calls exec tm r\<rparr>) = (res, st', w')"
proof (cases "outcome create w (round_params self state sys)")
  case (Inl e)
  with assms rounds_raise[OF Inl, of exec n rest] raised show ?thesis by simp
next
  case (Inr r)
  show ?thesis
  proof (cases "stop_reason r = ''tool_use'' \<and> tool_manager state \<noteq> None")
    case True
    then obtain tm where tm: "tool_manager state = Some tm" by auto
    from True have sr: "stop_reason r = ''tool_use''" by simp
    from assms rounds_tools[OF Inr sr tm, of exec n rest] tooled[OF Inr sr tm] show ?thesis by simp
  next
    case False
    then have c: "stop_reason r \<noteq> ''tool_use'' \<or> tool_manager state = None" by auto
    from assms rounds_text[OF Inr c, of exec n rest] plain[OF Inr c] show ?thesis by simp
  qed
qed

lemma new_model_calls_self [simp]: "new_model_calls w (after_call create w p) = [(p, outcome create w p)]"
  by (simp add: new_model_calls_def)

lemma new_tool_calls_self [simp]: "new_tool_calls w (after_call create w p) = []"
  by (simp add: new_tool_calls_def)

text \<open>The logs only grow, and every run makes at least one model call.\<close>

lemma rounds_logs:
  assumes "rounds create exec self sys rs state w = (res, st', w')"
  shows "\<exists>cs ts. model_calls w' = model_calls w @ cs \<and> tool_calls w' = tool_calls w @ ts"
  using assms
proof (induction rs arbitrary: state w)
  case Nil
  then show ?case by (auto simp: rounds_final)
next
  case (Cons n rest)
  from Cons.prems show ?case
  proof (cases rule: rounds_cases)
    case (tooled r tm)
    from Cons.IH[OF tooled(4)] show ?thesis by auto
  qed auto
qed

lemma new_model_calls_step:
  assumes "rounds create exec self sys rs state (w1\<lparr>tool_calls := ts\<rparr>) = (res, st', w')"
    and "model_calls w1 = model_calls w @ [c]"
  shows "new_model_calls w w' = c # new_model_calls (w1\<lparr>tool_calls := ts\<rparr>) w'"
proof -
  from rounds_logs[OF assms(1)] obtain cs where "model_calls w' = model_calls w1 @ cs" by auto
  with assms(2) show ?thesis by (simp add: new_model_calls_def)
qed

lemma new_tool_calls_step:
  assumes "rounds create exec self sys rs state (w1\<lparr>tool_calls := tool_calls w @ ts\<rparr>) = (res, st', w')"
  shows "new_tool_calls w w' = ts @ new_tool_calls (w1\<lparr>tool_calls := tool_calls w @ ts\<rparr>) w'"
proof -
  from rounds_logs[OF assms(1)] obtain ts' where "tool_calls w' = (tool_calls w @ ts) @ ts'" by auto
  then show ?thesis by (simp add: new_tool_calls_def)
qed

lemma rounds_never_raises:
  assumes "rounds create exec self sys rs state w = (res, st', w')"
  shows "\<exists>s. res = Inr s"
  using assms
proof (induction rs arbitrary: state w)
  case Nil
  then show ?case by (auto simp: rounds_final)
next
  case (Cons n rest)
  from Cons.prems show ?case
  proof (cases rule: rounds_cases)
    case (tooled r tm)
    from Cons.IH[OF tooled(4)] show ?thesis .
  qed auto
qed

lemma rounds_call_bound:
  assumes "rounds create exec self sys rs state w = (res, st', w')"
  shows "1 \<le> length (new_model_calls w w') \<and> length (new_model_calls w w') \<le> length rs + 1"
  using assms
proof (induction rs arbitrary: state w)
  case Nil
  then show ?case by (auto simp: rounds_final)
next
  case (Cons n rest)
  from Cons.prems show ?case
  proof (cases rule: rounds_cases)
    case (tooled r tm)
    from Cons.IH[OF tooled(4)] new_model_calls_step[OF tooled(4), of w]
    show ?thesis by simp
  qed auto
qed

lemma api_tools_round_params:
  "truthy_list (tools state) \<Longrightarrow>
     api_tools (round_params self state sys) = tools state \<and>
     api_tool_choice (round_params self state sys) = Some ''auto''"
  by (simp add: round_params_def Let_def)

lemma rounds_all_tools:
  assumes "rounds create exec self sys rs state w = (res, st', w')"
    and "tool_manager state \<noteq> None" and "truthy_list (tools state)"
    and "list_all requests_tools (map snd (take (length rs) (new_model_calls w w')))"
  shows "map (\<lambda>c. api_tools (fst c)) (new_model_calls w w') = replicate (length rs) (tools state) @ [None] \<and>
         map (\<lambda>c. api_tool_choice (fst c)) (new_model_calls w w')
           = replicate (length rs) (Some ''auto'') @ [None]"
  using assms
proof (induction rs arbitrary: state w)
  case Nil
  then show ?case by (auto simp: rounds_final base_api_params_def)
next
  case (Cons n rest)
  from Cons.prems(1) show ?case
  proof (cases rule: rounds_cases)
    case (raised e)
    with Cons.prems(4) show ?thesis by simp
  next
    case (plain r)
    with Cons.prems(2,4) show ?thesis by simp
  next
    case (tooled r tm)
    let ?st = "state\<lparr>round_count := n,
                tool_manager := Some (snd (run_tools exec tm (tool_uses (content r)))),
                messages := next_messages (messages state) r (round_results exec tm r)\<rparr>"
    let ?w = "(after_call create w (round_params self state sys))
            \<lparr>tool_calls := tool_calls w @ round_calls exec tm r\<rparr>"
    have step: "new_model_calls w w' = (round_params self state sys, Inr r) # new_model_calls ?w w'"
      using new_model_calls_step[OF tooled(4), of w] tooled(1) by simp
    have "map (\<lambda>c. api_tools (fst c)) (new_model_calls ?w w') = replicate (length rest) (tools ?st) @ [None] \<and>
         map (\<lambda>c. api_tool_choice (fst c)) (new_model_calls ?w w')
           = replicate (length rest) (Some ''auto'') @ [None]"
      using Cons.prems(3,4) step by (intro Cons.IH[OF tooled(4)]) simp_all
    with step api_tools_round_params[OF Cons.prems(3), of self sys] show ?thesis by simp
  qed
qed

lemma rounds_error:
  assumes "rounds create exec self sys rs state w = (res, st', w')"
    and "i < length (new_model_calls w w')" and "snd (new_model_calls w w' ! i) = Inl m"
  shows "Suc i = length (new_model_calls w w') \<and>
         (i < length rs \<longrightarrow> res = Inr (error_result m)) \<and>
         (i = length rs \<longrightarrow> res = Inr (''Error generating final response: '' @ m))"
  using assms
proof (induction rs arbitrary: state w i)
  case Nil
  then show ?case by (auto simp: rounds_final)
next
  case (Cons n rest)
  from Cons.prems(1) show ?case
  proof (cases rule: rounds_cases)
    case (raised e)
    with Cons.prems(2,3) show ?thesis by simp
  next
    case (plain r)
    with Cons.prems(2,3) show ?thesis by simp
  next
    case (tooled r tm)
    let ?w = "(after_call create w (round_params self state sys))
            \<lparr>tool_calls := tool_calls w @ round_calls exec tm r\<rparr>"
    have step: "new_model_calls w w' = (round_params self state sys, Inr r) # new_model_calls ?w w'"
      using new_model_calls_step[OF tooled(4), of w] tooled(1) by simp
    from Cons.prems(3) step obtain j where j: "i = Suc j" by (cases i) auto
    with Cons.prems(2,3) step have "j < length (new_model_calls ?w w')"
      "snd (new_model_calls ?w w' ! j) = Inl m" by simp_all
    from Cons.IH[OF tooled(4) this] step j show ?thesis by simp
  qed
qed

lemma replay_append: "replay exec tm (cs @ ds) = replay exec (replay exec tm cs) ds"
  by (induction exec tm cs rule: replay.induct) simp_all

lemma replay_run_tools:
  "replay exec tm (map2 call_of us (fst (run_tools exec tm us))) = snd (run_tools exec tm us)"
  by (induction exec tm us rule: run_tools.induct) (auto split: prod.splits)

lemma rounds_replay:
  assumes "rounds create exec self sys rs state w = (res, st', w')"
  shows "tool_manager st' = map_option (\<lambda>t. replay exec t (new_tool_calls w w')) (tool_manager state)"
  using assms
proof (induction rs arbitrary: state w)
  case Nil
  then show ?case by (auto simp: rounds_final option.map_ident)
next
  case (Cons n rest)
  from Cons.prems(1) show ?case
  proof (cases rule: rounds_cases)
    case (tooled r tm)
    from Cons.IH[OF tooled(4)] new_tool_calls_step[OF tooled(4)]
      tooled(3)
    show ?thesis by (simp add: replay_append round_calls_def replay_run_tools)
  qed (cases "tool_manager state"; simp)+
qed

lemma first_params_eq:
  "round_params self (initial_state query tls tm) (system_content_of self hist)
     = first_params self query hist tls"
  by (simp add: first_params_def round_params_def initial_state_def Let_def)

lemma generate_response_plain:
  assumes "outcome create w (first_params self query hist tls) = Inr r"
    and "stop_reason r \<noteq> ''tool_use'' \<or> tm = None"
  shows "generate_response create exec self query hist tls tm w =
           (Inr (text_result r), (initial_state query tls tm)\<lparr>round_count := 1\<rparr>,
            after_call create w (first_params self query hist tls))"
proof -
  have "stop_reason r \<noteq> ''tool_use'' \<or> tool_manager (initial_state query tls tm) = None"
    using assms(2) by (simp add: initial_state_def)
  from rounds_text[of create w self "initial_state query tls tm" "system_content_of self hist",
      unfolded first_params_eq, OF assms(1) this]
  show ?thesis by (simp add: generate_response_rounds first_params_eq)
qed

lemmas run_defs =
  generate_response_rounds rounds.simps execute_single_round_def call_model_def round_params_def
  base_api_params_def handle_tool_execution_def prepare_next_round_def get_final_response_def
  should_terminate_def truthy_def truthy_list_def first_text_def initial_state_def
  system_content_of_def start_def demo_tools_def demo_generator_def text_response_def
  tool_response_def new_model_calls_def new_tool_calls_def Let_def demo_schemas_def

section \<open>A round with tool calls\<close>

lemma api_messages_round_params [simp]:
  "api_messages (round_params self state sys) = messages state"
  by (simp add: round_params_def base_api_params_def Let_def)

lemma rounds_first_call:
  assumes "rounds create exec self sys rs state w = (res, st', w')"
  shows "\<exists>p out more. new_model_calls w w' = (p, out) # more \<and> api_messages p = messages state"
proof (cases rs)
  case Nil
  with assms show ?thesis by (auto simp: rounds_final base_api_params_def)
next
  case (Cons n rest)
  from assms[unfolded Cons] show ?thesis
  proof (cases rule: rounds_cases)
    case (tooled r tm)
    from new_model_calls_step[OF tooled(4), of w] tooled(1) show ?thesis by simp
  qed auto
qed

lemma length_round_results [simp]:
  "length (round_results exec tm r) = length (tool_uses (content r))"
  by (simp add: round_results_def length_run_tools)

lemma length_round_calls [simp]:
  "length (round_calls exec tm r) = length (tool_uses (content r))"
  by (simp add: round_calls_def length_run_tools)

lemma tool_use_id_result_of [simp]: "tool_use_id (result_of u out) = fst (snd u)"
  by (cases "(u, out)" rule: result_of.cases) auto

lemma ids_round_results:
  "map tool_use_id (round_results exec tm r) = map (\<lambda>u. fst (snd u)) (tool_uses (content r))"
proof -
  have "map tool_use_id (map2 result_of us outs) = map (\<lambda>u. fst (snd u)) us"
    if "length outs = length us" for us :: "(string \<times> string \<times> tool_input) list" and outs
    using that by (induction us outs rule: list_induct2') auto
  then show ?thesis by (simp add: round_results_def length_run_tools)
qed

lemma rounds_next_call:
  assumes "outcome create w (round_params self state sys) = Inr r"
    and "stop_reason r = ''tool_use''" and "tool_manager state = Some tm"
    and "tool_uses (content r) \<noteq> []"
    and "rounds create exec self sys (n # rest) state w = (res, st', w')"
  shows "\<exists>p out more.
           new_model_calls w w' = (round_params self state sys, Inr r) # (p, out) # more \<and>
           api_messages p =
             messages state @
             [\<lparr>role = ''assistant'', msg_content = Blocks (content r)\<rparr>,
              \<lparr>role = ''user'', msg_content = Results (round_results exec tm r)\<rparr>]"
proof -
  let ?st = "state\<lparr>round_count := n,
                tool_manager := Some (snd (run_tools exec tm (tool_uses (content r)))),
                messages := next_messages (messages state) r (round_results exec tm r)\<rparr>"
  let ?w = "(after_call create w (round_params self state sys))
            \<lparr>tool_calls := tool_calls w @ round_calls exec tm r\<rparr>"
  from assms(5) have run: "rounds create exec self sys rest ?st ?w = (res, st', w')"
    by (simp add: rounds_tools[OF assms(1,2,3)])
  from rounds_first_call[OF run] obtain p out more where
    nxt: "new_model_calls ?w w' = (p, out) # more" "api_messages p = messages ?st" by auto
  have step: "new_model_calls w w' = (round_params self state sys, Inr r) # new_model_calls ?w w'"
    using new_model_calls_step[OF run, of w] assms(1) by simp
  have ne: "round_results exec tm r \<noteq> []"
    using assms(4) length_round_results[of exec tm r] by (metis length_0_conv)
  from nxt step ne show ?thesis by (simp add: next_messages_def)
qed

lemma execute_single_round_tools:
  assumes "outcome create w (round_params self state sys) = Inr r"
    and "stop_reason r = ''tool_use''" and "tool_manager state = Some tm"
  shows "execute_single_round create exec self state sys w =
           (\<lparr>claude_response = Some r, has_tool_calls = True,
             tool_results = round_results exec tm r, final_text = None, error = None\<rparr>,
            state\<lparr>tool_manager := Some (snd (run_tools exec tm (tool_uses (content r))))\<rparr>,
            (after_call create w (round_params self state sys))
               \<lparr>tool_calls := tool_calls w @ round_calls exec tm r\<rparr>)"
  using assms by (simp add: execute_single_round_def call_model_eq handle_tool_execution_eq)

lemma map2_call_of_outcomes:
  "length outs = length us \<Longrightarrow> map (\<lambda>c. snd (snd c)) (map2 call_of us outs) = outs"
  by (induction us outs rule: list_induct2') auto

lemma map2_call_of_uses:
  "length outs = length us \<Longrightarrow>
     map (\<lambda>c. (fst c, fst (snd c))) (map2 call_of us outs) = map (\<lambda>u. (fst u, snd (snd u))) us"
  by (induction us outs rule: list_induct2') auto

lemma result_content_failed:
  "result_content (result_of u (Inl e)) = ''Tool execution failed: '' @ e"
  by (cases u) simp

lemma result_content_returned: "result_content (result_of u (Inr s)) = s"
  by (cases u) simp

section \<open>The registry\<close>

lemma tool_uses_member:
  "(name, ident, inp) \<in> set (tool_uses bs) \<longleftrightarrow> ToolUseBlock name ident inp \<in> set bs"
  by (induction bs rule: tool_uses.induct) auto

lemma registry_execute_absent:
  "name \<notin> fst ` set reg \<Longrightarrow>
     registry_execute tool_execute reg name args = (Inr (not_found name), reg)"
proof -
  assume "name \<notin> fst ` set reg"
  then have "map_of reg name = None" by (simp add: map_of_eq_None_iff)
  then show ?thesis by (simp add: registry_execute_def)
qed

lemma registry_execute_keys:
  "fst ` set (snd (registry_execute tool_execute reg name args)) = fst ` set reg"
proof (cases "map_of reg name")
  case None
  then show ?thesis by (simp add: registry_execute_def)
next
  case (Some t)
  then have "name \<in> fst ` set reg" by (metis map_of_eq_None_iff option.distinct(1))
  with Some show ?thesis
    by (auto simp: registry_execute_def dom_update split: prod.splits)
qed

lemma run_tools_absent:
  assumes "(name, ident, inp) \<in> set us" and "name \<notin> fst ` set reg"
  shows "\<lparr>tool_use_id = ident, result_content = not_found name\<rparr>
           \<in> set (map2 result_of us (fst (run_tools (registry_execute tool_execute) reg us)))"
  using assms
proof (induction us arbitrary: reg)
  case Nil
  then show ?case by simp
next
  case (Cons u us)
  obtain n i a where u: "u = (n, i, a)" by (cases u) auto
  obtain out reg' where ex: "registry_execute tool_execute reg n a = (out, reg')"
    by (cases "registry_execute tool_execute reg n a") auto
  obtain outs reg'' where rt: "run_tools (registry_execute tool_execute) reg' us = (outs, reg'')"
    by (cases "run_tools (registry_execute tool_execute) reg' us") auto
  from registry_execute_keys[of tool_execute reg n a] ex Cons.prems(2)
  have absent': "name \<notin> fst ` set reg'" by simp
  show ?case
  proof (cases "(name, ident, inp) = u")
    case True
    with u registry_execute_absent[OF Cons.prems(2), of tool_execute inp] ex rt
    show ?thesis by simp
  next
    case False
    with Cons.prems(1) have "(name, ident, inp) \<in> set us" by simp
    from Cons.IH[OF this absent'] u ex rt show ?thesis by simp
  qed
qed

declare str_nat.simps [simp del]

lemma str_nat_digit: "n < 10 \<Longrightarrow> str_nat n = [''0123456789'' ! n]"
  by (simp add: str_nat.simps)

lemmas run_defs2 = run_defs two_tool_uses_def two_then_done_def outcome_def after_call_def

section \<open>The claims\<close>

text \<open>
  C1 (as amended). Every invocation of \<^verbatim>\<open>generate_response\<close> makes at least one and at
  most three model calls. When a tool manager and a non-empty list of tool schemas are
  supplied and every response given in the two rounds requests tool use, there are exactly
  three model calls: two carrying the tool schemas and the automatic tool choice, then one
  carrying neither.
\<close>

theorem round_bound:
  "case generate_response create exec self query hist tls tm w of
     (res, st', w') \<Rightarrow>
       1 \<le> length (new_model_calls w w') \<and> length (new_model_calls w w') \<le> 3 \<and>
       (tm \<noteq> None \<and> truthy_list tls \<and>
        list_all requests_tools (map snd (take 2 (new_model_calls w w'))) \<longrightarrow>
          map (\<lambda>c. api_tools (fst c)) (new_model_calls w w') = [tls, tls, None] \<and>
          map (\<lambda>c. api_tool_choice (fst c)) (new_model_calls w w')
            = [Some ''auto'', Some ''auto'', None])"
proof -
  obtain res st' w' where
    run: "rounds create exec self (system_content_of self hist) [1, 2]
            (initial_state query tls tm) w = (res, st', w')"
    by (cases "rounds create exec self (system_content_of self hist) [1, 2]
            (initial_state query tls tm) w") auto
  have st: "tool_manager (initial_state query tls tm) = tm" "tools (initial_state query tls tm) = tls"
    by (simp_all add: initial_state_def)
  from rounds_call_bound[OF run]
  have b: "1 \<le> length (new_model_calls w w')" "length (new_model_calls w w') \<le> 3" by simp_all
  have "map (\<lambda>c. api_tools (fst c)) (new_model_calls w w') = [tls, tls, None] \<and>
        map (\<lambda>c. api_tool_choice (fst c)) (new_model_calls w w')
            = [Some ''auto'', Some ''auto'', None]"
    if "tm \<noteq> None" "truthy_list tls"
      "list_all requests_tools (map snd (take 2 (new_model_calls w w')))"
    using rounds_all_tools[OF run] that st by (simp add: numeral_2_eq_2)
  with b run show ?thesis by (simp add: generate_response_rounds)
qed

text \<open>The theorem at a concrete invocation.\<close>

theorem round_bound_witness:
  "list_all requests_tools (map snd (take 2 (new_model_calls (start always_tools)
      (snd (snd (generate_response scripted demo_tools demo_generator ''q'' None demo_schemas
         (Some ()) (start always_tools)))))))
   \<and> map (\<lambda>c. api_tools (fst c)) (new_model_calls (start always_tools)
      (snd (snd (generate_response scripted demo_tools demo_generator ''q'' None demo_schemas
         (Some ()) (start always_tools)))))
     = [demo_schemas, demo_schemas, None]
   \<and> map (\<lambda>c. api_tool_choice (fst c)) (new_model_calls (start always_tools)
      (snd (snd (generate_response scripted demo_tools demo_generator ''q'' None demo_schemas
         (Some ()) (start always_tools)))))
     = [Some ''auto'', Some ''auto'', None]"
proof -
  have h: "list_all requests_tools (map snd (take 2 (new_model_calls (start always_tools)
      (snd (snd (generate_response scripted demo_tools demo_generator ''q'' None demo_schemas
         (Some ()) (start always_tools)))))))"
    by (simp add: run_defs always_tools_def)
  have t: "truthy_list demo_schemas" by (simp add: truthy_list_def demo_schemas_def)
  from round_bound[where create = scripted and exec = demo_tools and self = demo_generator
      and query = "''q''" and hist = None and tls = demo_schemas and tm = "Some ()"
      and w = "start always_tools"] h t
  show ?thesis by (simp split: prod.splits)
qed

text \<open>
  C1 as stated fails without a tool manager: every scripted response requests tool use, and
  the invocation ends after one model call.
\<close>

theorem round_bound_counterexample:
  "list_all requests_tools always_tools \<and>
   length (new_model_calls (start always_tools)
      (snd (snd (generate_response scripted demo_tools demo_generator ''q'' None demo_schemas
         None (start always_tools))))) = 1"
  by (simp add: run_defs always_tools_def)

text \<open>
  C2 (as amended). No exception leaves \<^verbatim>\<open>generate_response\<close>. A model call that raises is
  the last call of the invocation. When it is the call of a round (the first or second
  call) and its message is not empty, the returned string is \<open>Error: \<close> followed by
  the message; when it is the forced final call
  (the third call), the returned string is \<open>Error generating final response: \<close>
  followed by the message. The tool manager is left in the state that the logged tool
  executions produce, one after the other.
\<close>

theorem model_call_failure:
  "case generate_response create exec self query hist tls tm w of
     (res, st', w') \<Rightarrow>
       \<not> isl res \<and>
       (\<forall>i m. i < length (new_model_calls w w') \<and> snd (new_model_calls w w' ! i) = Inl m \<longrightarrow>
          Suc i = length (new_model_calls w w') \<and>
          (i < 2 \<and> m \<noteq> [] \<longrightarrow> res = Inr (''Error: '' @ m)) \<and>
          (i = 2 \<longrightarrow> res = Inr (''Error generating final response: '' @ m))) \<and>
       tool_manager st' = map_option (\<lambda>t. replay exec t (new_tool_calls w w')) tm"
proof -
  obtain res st' w' where
    run: "rounds create exec self (system_content_of self hist) [1, 2]
            (initial_state query tls tm) w = (res, st', w')"
    by (cases "rounds create exec self (system_content_of self hist) [1, 2]
            (initial_state query tls tm) w") auto
  have st: "tool_manager (initial_state query tls tm) = tm"
    by (simp add: initial_state_def)
  from rounds_never_raises[OF run] have a: "\<not> isl res" by auto
  have b: "Suc i = length (new_model_calls w w') \<and>
          (i < 2 \<and> m \<noteq> [] \<longrightarrow> res = Inr (''Error: '' @ m)) \<and>
          (i = 2 \<longrightarrow> res = Inr (''Error generating final response: '' @ m))"
    if "i < length (new_model_calls w w')" "snd (new_model_calls w w' ! i) = Inl m" for i m
    using rounds_error[OF run that] by (simp add: error_result_def)
  from rounds_replay[OF run] st
  have c: "tool_manager st' = map_option (\<lambda>t. replay exec t (new_tool_calls w w')) tm" by simp
  from a b c show ?thesis unfolding generate_response_rounds run prod.case by blast
qed

text \<open>The theorem at a concrete invocation.\<close>

theorem model_call_failure_witness:
  "snd (new_model_calls (start failing_second)
      (snd (snd (generate_response scripted demo_tools demo_generator ''q'' None demo_schemas
         (Some ()) (start failing_second)))) ! 1) = Inl ''API rate limit exceeded''
   \<and> fst (generate_response scripted demo_tools demo_generator ''q'' None demo_schemas
         (Some ()) (start failing_second)) = Inr ''Error: API rate limit exceeded''
   \<and> length (new_model_calls (start failing_second)
      (snd (snd (generate_response scripted demo_tools demo_generator ''q'' None demo_schemas
         (Some ()) (start failing_second))))) = 2
   \<and> map fst (new_tool_calls (start failing_second)
      (snd (snd (generate_response scripted demo_tools demo_generator ''q'' None demo_schemas
         (Some ()) (start failing_second))))) = [''search_course_content'']"
proof -
  let ?run = "generate_response scripted demo_tools demo_generator ''q'' None demo_schemas
         (Some ()) (start failing_second)"
  have h: "(1::nat) < length (new_model_calls (start failing_second) (snd (snd ?run)))"
    "snd (new_model_calls (start failing_second) (snd (snd ?run)) ! 1) = Inl ''API rate limit exceeded''"
    by (simp_all add: run_defs failing_second_def)
  have t: "map fst (new_tool_calls (start failing_second) (snd (snd ?run))) = [''search_course_content'']"
    by (simp add: run_defs failing_second_def)
  from model_call_failure[where create = scripted and exec = demo_tools and self = demo_generator
      and query = "''q''" and hist = None and tls = demo_schemas and tm = "Some ()"
      and w = "start failing_second"]
  have "\<forall>i m. i < length (new_model_calls (start failing_second) (snd (snd ?run))) \<and>
          snd (new_model_calls (start failing_second) (snd (snd ?run)) ! i) = Inl m \<longrightarrow>
          Suc i = length (new_model_calls (start failing_second) (snd (snd ?run))) \<and>
          (i < 2 \<and> m \<noteq> [] \<longrightarrow> fst ?run = Inr (''Error: '' @ m))"
    by (simp split: prod.splits)
  with h have "Suc 1 = length (new_model_calls (start failing_second) (snd (snd ?run)))"
    "fst ?run = Inr (''Error: '' @ ''API rate limit exceeded'')" by (blast, force)
  with h t show ?thesis by simp
qed

text \<open>
  C2 as stated fails on the forced final call: when the third model call raises
  \<open>boom\<close>, the returned string is not \<open>Error: boom\<close>.
\<close>

theorem model_call_failure_counterexample:
  "snd (new_model_calls (start failing_final)
      (snd (snd (generate_response scripted demo_tools demo_generator ''q'' None demo_schemas
         (Some ()) (start failing_final)))) ! 2) = Inl ''boom''
   \<and> fst (generate_response scripted demo_tools demo_generator ''q'' None demo_schemas
         (Some ()) (start failing_final)) = Inr ''Error generating final response: boom''
   \<and> fst (generate_response scripted demo_tools demo_generator ''q'' None demo_schemas
         (Some ()) (start failing_final)) \<noteq> Inr ''Error: boom''"
  by (simp add: run_defs failing_final_def)

text \<open>
  C3 (as amended). If the first model response does not stop for tool use, exactly one model
  call is made, no tool is executed, and the returned string is the text of the response's
  first block when that text is not empty; it is \<open>No response generated\<close> when the text
  is empty and \<open>Error: \<close> with the message when the first block's text cannot be read
  (\<open>text_result\<close>).
\<close>

theorem natural_termination:
  assumes "outcome create w (first_params self query hist tls) = Inr r"
    and "stop_reason r \<noteq> ''tool_use''"
  shows "case generate_response create exec self query hist tls tm w of
           (res, st', w') \<Rightarrow>
             new_model_calls w w' = [(first_params self query hist tls, Inr r)] \<and>
             new_tool_calls w w' = [] \<and> tool_manager st' = tm \<and>
             res = Inr (text_result r) \<and>
             (\<forall>t bs. content r = TextBlock t # bs \<and> t \<noteq> [] \<longrightarrow> res = Inr t)"
proof -
  have "stop_reason r \<noteq> ''tool_use'' \<or> tm = None" using assms(2) by simp
  from generate_response_plain[OF assms(1) this, where exec = exec] assms(1)
  show ?thesis by (auto simp: initial_state_def text_result_def first_text_def)
qed

text \<open>The theorem at a concrete invocation.\<close>

theorem natural_termination_witness:
  "outcome scripted (start [Inr (text_response ''4'')])
      (first_params demo_generator ''What is 2+2?'' None demo_schemas) = Inr (text_response ''4'')
   \<and> stop_reason (text_response ''4'') \<noteq> ''tool_use''
   \<and> fst (generate_response scripted demo_tools demo_generator ''What is 2+2?'' None demo_schemas
         (Some ()) (start [Inr (text_response ''4'')])) = Inr ''4''
   \<and> length (new_model_calls (start [Inr (text_response ''4'')])
        (snd (snd (generate_response scripted demo_tools demo_generator ''What is 2+2?'' None
           demo_schemas (Some ()) (start [Inr (text_response ''4'')]))))) = 1
   \<and> new_tool_calls (start [Inr (text_response ''4'')])
        (snd (snd (generate_response scripted demo_tools demo_generator ''What is 2+2?'' None
           demo_schemas (Some ()) (start [Inr (text_response ''4'')])))) = []"
proof -
  have h: "outcome scripted (start [Inr (text_response ''4'')])
      (first_params demo_generator ''What is 2+2?'' None demo_schemas) = Inr (text_response ''4'')"
    "stop_reason (text_response ''4'') \<noteq> ''tool_use''"
    by (simp_all add: outcome_def start_def text_response_def)
  from natural_termination[OF h, where exec = demo_tools and tm = "Some ()"] h
  show ?thesis by (simp add: text_response_def text_result_def first_text_def split: prod.splits)
qed

text \<open>
  C3 as stated fails for a response whose text is empty: the returned string is not that
  text.
\<close>

theorem natural_termination_counterexample:
  "stop_reason (text_response []) \<noteq> ''tool_use'' \<and>
   tool_uses (content (text_response [])) = [] \<and>
   first_text (content (text_response [])) = Inr [] \<and>
   fst (generate_response scripted demo_tools demo_generator ''q'' None demo_schemas
         (Some ()) (start [Inr (text_response [])])) = Inr ''No response generated''"
  by (simp add: run_defs)

text \<open>
  C4 (as amended). In a round whose model response stops for tool use (its stop reason is
  \<open>tool_use\<close>), with a tool manager present and
  \<open>k \<ge> 1\<close> tool-use blocks in the response, \<^verbatim>\<open>_handle_tool_execution\<close> returns exactly
  \<open>k\<close> tool results whose \<open>tool_use_id\<close> fields are the ids of the blocks in the
  same order; the next model call of the loop is made with the messages of the round followed
  by the assistant message holding the response content and one user message holding those
  results.
\<close>

theorem result_alignment:
  assumes "outcome create w (round_params self state sys) = Inr r"
    and "stop_reason r = ''tool_use''" and "tool_manager state = Some tm"
    and "tool_uses (content r) \<noteq> []"
  shows "case handle_tool_execution exec r tm (after_call create w (round_params self state sys)) of
           (results, tm', w2) \<Rightarrow>
             length results = length (tool_uses (content r)) \<and>
             map tool_use_id results = map (\<lambda>u. fst (snd u)) (tool_uses (content r)) \<and>
             (case rounds create exec self sys (n # rest) state w of
                (res, st', w') \<Rightarrow>
                  \<exists>p out more.
                    new_model_calls w w' = (round_params self state sys, Inr r) # (p, out) # more \<and>
                    api_messages p =
                      messages state @
                      [\<lparr>role = ''assistant'', msg_content = Blocks (content r)\<rparr>,
                       \<lparr>role = ''user'', msg_content = Results results\<rparr>])"
proof -
  obtain res st' w' where run: "rounds create exec self sys (n # rest) state w = (res, st', w')"
    by (cases "rounds create exec self sys (n # rest) state w") auto
  from rounds_next_call[OF assms run] show ?thesis
    by (simp add: handle_tool_execution_eq ids_round_results run)
qed

text \<open>The theorem at a concrete invocation.\<close>

theorem result_alignment_witness:
  "outcome scripted (start two_then_done)
      (round_params demo_generator (initial_state ''q'' demo_schemas (Some ())) ''s'')
     = Inr two_tool_uses
   \<and> tool_uses (content two_tool_uses) \<noteq> []
   \<and> map tool_use_id (fst (handle_tool_execution demo_tools two_tool_uses ()
        (after_call scripted (start two_then_done)
          (round_params demo_generator (initial_state ''q'' demo_schemas (Some ())) ''s''))))
     = [''a'', ''b'']
   \<and> map (\<lambda>c. api_messages (fst c)) (new_model_calls (start two_then_done)
        (snd (snd (rounds scripted demo_tools demo_generator ''s'' [1, 2]
           (initial_state ''q'' demo_schemas (Some ())) (start two_then_done)))))
     = [[\<lparr>role = ''user'', msg_content = Text ''q''\<rparr>],
        [\<lparr>role = ''user'', msg_content = Text ''q''\<rparr>,
         \<lparr>role = ''assistant'', msg_content = Blocks (content two_tool_uses)\<rparr>,
         \<lparr>role = ''user'', msg_content = Results
            [\<lparr>tool_use_id = ''a'', result_content = ''Tool execution failed: boom''\<rparr>,
             \<lparr>tool_use_id = ''b'', result_content = ''result of search_course_content''\<rparr>]\<rparr>]]"
proof -
  let ?st = "initial_state ''q'' demo_schemas (Some ()) :: (string, unit) conversation_state"
  let ?w = "start two_then_done :: ((string + response) list, string) world"
  have h: "outcome scripted ?w (round_params demo_generator ?st ''s'') = Inr two_tool_uses"
    "stop_reason two_tool_uses = ''tool_use''" "tool_manager ?st = Some ()"
    "tool_uses (content two_tool_uses) \<noteq> []"
    by (simp_all add: run_defs2)
  have ids: "map (\<lambda>u. fst (snd u)) (tool_uses (content two_tool_uses)) = [''a'', ''b'']"
    by (simp add: two_tool_uses_def)
  have msgs: "map (\<lambda>c. api_messages (fst c)) (new_model_calls ?w
        (snd (snd (rounds scripted demo_tools demo_generator ''s'' [1, 2] ?st ?w))))
     = [[\<lparr>role = ''user'', msg_content = Text ''q''\<rparr>],
        [\<lparr>role = ''user'', msg_content = Text ''q''\<rparr>,
         \<lparr>role = ''assistant'', msg_content = Blocks (content two_tool_uses)\<rparr>,
         \<lparr>role = ''user'', msg_content = Results
            [\<lparr>tool_use_id = ''a'', result_content = ''Tool execution failed: boom''\<rparr>,
             \<lparr>tool_use_id = ''b'', result_content = ''result of search_course_content''\<rparr>]\<rparr>]]"
    by (simp add: run_defs2)
  from result_alignment[OF h, where exec = demo_tools and n = 1 and rest = "[2]"]
  have "map tool_use_id (fst (handle_tool_execution demo_tools two_tool_uses ()
        (after_call scripted ?w (round_params demo_generator ?st ''s''))))
     = map (\<lambda>u. fst (snd u)) (tool_uses (content two_tool_uses))"
    by (simp split: prod.splits)
  with h ids msgs show ?thesis by simp
qed

text \<open>
  C4 as stated fails for a response that contains a tool-use block and did not stop for tool
  use (here it was cut off at the token limit): with a tool manager present the round
  produces no tool result, executes no tool, and returns the first block's text.
\<close>

theorem result_alignment_counterexample:
  "length (tool_uses (content truncated_tool_use)) = 1 \<and>
   tool_results (fst (execute_single_round scripted demo_tools demo_generator
      (initial_state ''q'' demo_schemas (Some ())) ''s'' (start [Inr truncated_tool_use]))) = [] \<and>
   new_tool_calls (start [Inr truncated_tool_use])
      (snd (snd (generate_response scripted demo_tools demo_generator ''q'' None demo_schemas
         (Some ()) (start [Inr truncated_tool_use])))) = [] \<and>
   fst (generate_response scripted demo_tools demo_generator ''q'' None demo_schemas
         (Some ()) (start [Inr truncated_tool_use])) = Inr ''Let me search.''"
  by (simp add: run_defs truncated_tool_use_def)

text \<open>
  C5. In a round with tool calls every tool-use block is executed once, in order, whatever
  the outcomes of the others (\<open>run_tools\<close> runs them one after the other). An
  execution that raises with message \<open>e\<close> gives the tool result
  \<open>Tool execution failed: e\<close> at its position, an execution that returns gives its
  string; the round reports tool calls and no error.
\<close>

theorem tool_failure_contained:
  assumes "outcome create w (round_params self state sys) = Inr r"
    and "stop_reason r = ''tool_use''" and "tool_manager state = Some tm"
  shows "case execute_single_round create exec self state sys w of
           (rr, st', w') \<Rightarrow>
             has_tool_calls rr \<and> error rr = None \<and>
             map (\<lambda>c. (fst c, fst (snd c))) (new_tool_calls w w')
               = map (\<lambda>u. (fst u, snd (snd u))) (tool_uses (content r)) \<and>
             map (\<lambda>c. snd (snd c)) (new_tool_calls w w')
               = fst (run_tools exec tm (tool_uses (content r))) \<and>
             length (tool_results rr) = length (tool_uses (content r)) \<and>
             (\<forall>i e. i < length (tool_results rr) \<and> snd (snd (new_tool_calls w w' ! i)) = Inl e \<longrightarrow>
                result_content (tool_results rr ! i) = ''Tool execution failed: '' @ e) \<and>
             (\<forall>i s. i < length (tool_results rr) \<and> snd (snd (new_tool_calls w w' ! i)) = Inr s \<longrightarrow>
                result_content (tool_results rr ! i) = s)"
proof -
  let ?us = "tool_uses (content r)"
  let ?outs = "fst (run_tools exec tm ?us)"
  let ?w' = "(after_call create w (round_params self state sys))
               \<lparr>tool_calls := tool_calls w @ round_calls exec tm r\<rparr>"
  have len: "length ?outs = length ?us" by (rule length_run_tools)
  have new: "new_tool_calls w ?w' = map2 call_of ?us ?outs"
    by (simp add: new_tool_calls_def round_calls_def)
  have c1: "map (\<lambda>c. (fst c, fst (snd c))) (new_tool_calls w ?w')
               = map (\<lambda>u. (fst u, snd (snd u))) ?us"
    by (simp only: new map2_call_of_uses[OF len])
  have c2: "map (\<lambda>c. snd (snd c)) (new_tool_calls w ?w') = ?outs"
    by (simp only: new map2_call_of_outcomes[OF len])
  have ln: "length (new_tool_calls w ?w') = length ?us"
    using len by (simp add: new)
  have nth: "snd (snd (new_tool_calls w ?w' ! i)) = ?outs ! i" if "i < length ?us" for i
  proof -
    from that ln have "map (\<lambda>c. snd (snd c)) (new_tool_calls w ?w') ! i
        = snd (snd (new_tool_calls w ?w' ! i))"
      by (intro nth_map) simp
    then show ?thesis by (simp only: c2)
  qed
  have failed: "result_content (round_results exec tm r ! i) = ''Tool execution failed: '' @ e"
    if "i < length (round_results exec tm r)" "snd (snd (new_tool_calls w ?w' ! i)) = Inl e" for i e
    using that len nth[of i] by (simp add: round_results_def result_content_failed)
  have returned: "result_content (round_results exec tm r ! i) = s"
    if "i < length (round_results exec tm r)" "snd (snd (new_tool_calls w ?w' ! i)) = Inr s" for i s
    using that len nth[of i] by (simp add: round_results_def result_content_returned)
  show ?thesis
    unfolding execute_single_round_tools[OF assms] prod.case
    using c1 c2 failed returned length_round_results[of exec tm r]
    by (intro conjI allI impI) (simp_all del: length_round_results)
qed

text \<open>The theorem at a concrete invocation.\<close>

theorem tool_failure_contained_witness:
  "outcome scripted (start two_then_done)
      (round_params demo_generator (initial_state ''q'' demo_schemas (Some ())) ''s'')
     = Inr two_tool_uses
   \<and> new_tool_calls (start two_then_done)
        (snd (snd (execute_single_round scripted demo_tools demo_generator
           (initial_state ''q'' demo_schemas (Some ())) ''s'' (start two_then_done))))
     = [(''fail'', [(''query'', StrArg ''x'')], Inl ''boom''),
        (''search_course_content'', [(''query'', StrArg ''y'')],
         Inr ''result of search_course_content'')]
   \<and> tool_results (fst (execute_single_round scripted demo_tools demo_generator
           (initial_state ''q'' demo_schemas (Some ())) ''s'' (start two_then_done)))
     = [\<lparr>tool_use_id = ''a'', result_content = ''Tool execution failed: boom''\<rparr>,
        \<lparr>tool_use_id = ''b'', result_content = ''result of search_course_content''\<rparr>]
   \<and> has_tool_calls (fst (execute_single_round scripted demo_tools demo_generator
           (initial_state ''q'' demo_schemas (Some ())) ''s'' (start two_then_done)))"
proof -
  let ?st = "initial_state ''q'' demo_schemas (Some ()) :: (string, unit) conversation_state"
  let ?w = "start two_then_done :: ((string + response) list, string) world"
  have h: "outcome scripted ?w (round_params demo_generator ?st ''s'') = Inr two_tool_uses"
    "stop_reason two_tool_uses = ''tool_use''" "tool_manager ?st = Some ()"
    by (simp_all add: run_defs2)
  have ev: "new_tool_calls ?w
        (snd (snd (execute_single_round scripted demo_tools demo_generator ?st ''s'' ?w)))
     = [(''fail'', [(''query'', StrArg ''x'')], Inl ''boom''),
        (''search_course_content'', [(''query'', StrArg ''y'')],
         Inr ''result of search_course_content'')]"
    "tool_results (fst (execute_single_round scripted demo_tools demo_generator ?st ''s'' ?w))
     = [\<lparr>tool_use_id = ''a'', result_content = ''Tool execution failed: boom''\<rparr>,
        \<lparr>tool_use_id = ''b'', result_content = ''result of search_course_content''\<rparr>]"
    by (simp_all add: run_defs2)
  from tool_failure_contained[OF h, where exec = demo_tools]
  have "has_tool_calls (fst (execute_single_round scripted demo_tools demo_generator ?st ''s'' ?w))"
    by (simp split: prod.splits)
  with h ev show ?thesis by simp
qed

text \<open>
  C6. The string returned by the search tool's execute, for the result set the store gives:
  the error string itself when an error is set; without error and without rows
  \<open>No relevant content found\<close>, then the course filter and the lesson filter when
  they were supplied, then the full stop; otherwise one block per row, the header
  \<open>[course - Lesson n]\<close> or \<open>[course]\<close>, a line break and the document text,
  joined by blank lines.
\<close>

theorem search_output:
  "(search_error (search st query course lesson) = Some e \<longrightarrow>
      fst (search_execute st tool query course lesson) = e) \<and>
   (search_error (search st query course lesson) = None \<and>
    rows (search st query course lesson) = [] \<longrightarrow>
      fst (search_execute st tool query course lesson) =
        ''No relevant content found'' @
        (case course of None \<Rightarrow> [] | Some c \<Rightarrow> '' in course '' @ [CHR 0x27] @ c @ [CHR 0x27]) @
        (case lesson of None \<Rightarrow> [] | Some n \<Rightarrow> '' in lesson '' @ str_int n) @ ''.'') \<and>
   (search_error (search st query course lesson) = None \<and>
    rows (search st query course lesson) \<noteq> [] \<longrightarrow>
      fst (search_execute st tool query course lesson) =
        join [CHR 0x0A, CHR 0x0A]
          (map (\<lambda>(doc, meta).
                  ''['' @ course_title meta @
                  (case lesson_number meta of None \<Rightarrow> [] | Some n \<Rightarrow> '' - Lesson '' @ str_int n) @
                  '']'' @ [CHR 0x0A] @ doc)
               (rows (search st query course lesson))))"
proof -
  have "format_block = (\<lambda>(doc, meta).
                  ''['' @ course_title meta @
                  (case lesson_number meta of None \<Rightarrow> [] | Some n \<Rightarrow> '' - Lesson '' @ str_int n) @
                  '']'' @ [CHR 0x0A] @ doc)"
    by (auto simp: format_block_def fun_eq_iff)
  then show ?thesis
    by (simp add: search_execute_def Let_def filter_info_def format_results_def)
qed

text \<open>The theorem at concrete inputs.\<close>

theorem search_output_witness:
  "search_error (search demo_store ''down'' None None) = Some ''Database connection failed''
   \<and> fst (search_execute demo_store fresh_tool ''down'' None None) = ''Database connection failed''
   \<and> rows (search demo_store ''x'' (Some ''NoSuch'') (Some 9)) = []
   \<and> fst (search_execute demo_store fresh_tool ''x'' (Some ''NoSuch'') (Some 9))
       = ''No relevant content found in course '' @ [CHR 0x27] @ ''NoSuch'' @ [CHR 0x27] @
         '' in lesson 9.''
   \<and> fst (search_execute demo_store fresh_tool ''x'' None None) = ''No relevant content found.''
   \<and> fst (search_execute demo_store fresh_tool ''ml'' None None)
       = ''[Intro to ML - Lesson 1]'' @ [CHR 0x0A] @ ''ML is a subset of AI.'' @
         [CHR 0x0A, CHR 0x0A] @ ''[Intro to ML]'' @ [CHR 0x0A] @ ''Course overview''"
proof -
  have e: "search_error (search demo_store ''down'' None None) = Some ''Database connection failed''"
    by (simp add: demo_store_def demo_search_def)
  have z: "search_error (search demo_store ''x'' course lesson) = None"
    "rows (search demo_store ''x'' course lesson) = []" for course lesson
    by (simp_all add: demo_store_def demo_search_def rows_def)
  have r: "search_error (search demo_store ''ml'' None None) = None"
    "rows (search demo_store ''ml'' None None) =
       [(''ML is a subset of AI.'',
         \<lparr>course_title = ''Intro to ML'', lesson_number = Some 1, chunk_index = 0\<rparr>),
        (''Course overview'',
         \<lparr>course_title = ''Intro to ML'', lesson_number = None, chunk_index = 1\<rparr>)]"
    by (simp_all add: demo_store_def demo_search_def rows_def)
  note t = search_output[where st = demo_store and tool = fresh_tool]
  from t[where query = "''down''" and course = None and lesson = None
        and e = "''Database connection failed''"] e
  have 1: "fst (search_execute demo_store fresh_tool ''down'' None None) = ''Database connection failed''"
    by blast
  from t[where query = "''x''" and course = "Some ''NoSuch''" and lesson = "Some 9"] z
  have 2: "fst (search_execute demo_store fresh_tool ''x'' (Some ''NoSuch'') (Some 9))
       = ''No relevant content found in course '' @ [CHR 0x27] @ ''NoSuch'' @ [CHR 0x27] @
         '' in lesson 9.''"
    by (simp add: str_int_def str_nat_digit)
  from t[where query = "''x''" and course = None and lesson = None] z
  have 3: "fst (search_execute demo_store fresh_tool ''x'' None None) = ''No relevant content found.''"
    by simp
  from t[where query = "''ml''" and course = None and lesson = None] r
  have 4: "fst (search_execute demo_store fresh_tool ''ml'' None None)
       = ''[Intro to ML - Lesson 1]'' @ [CHR 0x0A] @ ''ML is a subset of AI.'' @
         [CHR 0x0A, CHR 0x0A] @ ''[Intro to ML]'' @ [CHR 0x0A] @ ''Course overview''"
    by (simp add: str_int_def str_nat_digit)
  from e z(2) 1 2 3 4 show ?thesis by simp
qed

text \<open>
  C7. For a tool name that is not in the registry, the registry's execute returns the string
  \<open>Tool 'name' not found\<close> and raises nothing. When a round's response asks for such a
  tool, the loop makes its next model call with the assistant message and a user message whose
  results contain that string under the id of the request.
\<close>

theorem unknown_tool:
  assumes "name \<notin> fst ` set reg"
  shows "registry_execute tool_execute reg name inp = (Inr (not_found name), reg) \<and>
         (outcome create w (round_params self state sys) = Inr r \<and>
          stop_reason r = ''tool_use'' \<and> tool_manager state = Some reg \<and>
          ToolUseBlock name ident inp \<in> set (content r) \<longrightarrow>
          (case rounds create (registry_execute tool_execute) self sys (n # rest) state w of
             (res, st', w') \<Rightarrow>
               \<exists>p out more results.
                 new_model_calls w w' = (round_params self state sys, Inr r) # (p, out) # more \<and>
                 api_messages p =
                   messages state @
                   [\<lparr>role = ''assistant'', msg_content = Blocks (content r)\<rparr>,
                    \<lparr>role = ''user'', msg_content = Results results\<rparr>] \<and>
                 \<lparr>tool_use_id = ident, result_content = not_found name\<rparr> \<in> set results))"
proof (intro conjI impI)
  show "registry_execute tool_execute reg name inp = (Inr (not_found name), reg)"
    by (rule registry_execute_absent[OF assms])
next
  assume h: "outcome create w (round_params self state sys) = Inr r \<and>
          stop_reason r = ''tool_use'' \<and> tool_manager state = Some reg \<and>
          ToolUseBlock name ident inp \<in> set (content r)"
  let ?exec = "registry_execute tool_execute"
  obtain res st' w' where run: "rounds create ?exec self sys (n # rest) state w = (res, st', w')"
    by (cases "rounds create ?exec self sys (n # rest) state w") auto
  from h have mem: "(name, ident, inp) \<in> set (tool_uses (content r))"
    by (simp add: tool_uses_member)
  then have ne: "tool_uses (content r) \<noteq> []" by auto
  from run_tools_absent[OF mem assms, of tool_execute]
  have "\<lparr>tool_use_id = ident, result_content = not_found name\<rparr> \<in> set (round_results ?exec reg r)"
    by (simp add: round_results_def)
  with rounds_next_call[OF _ _ _ ne run] h
  show "case rounds create ?exec self sys (n # rest) state w of
             (res, st', w') \<Rightarrow>
               \<exists>p out more results.
                 new_model_calls w w' = (round_params self state sys, Inr r) # (p, out) # more \<and>
                 api_messages p =
                   messages state @
                   [\<lparr>role = ''assistant'', msg_content = Blocks (content r)\<rparr>,
                    \<lparr>role = ''user'', msg_content = Results results\<rparr>] \<and>
                 \<lparr>tool_use_id = ident, result_content = not_found name\<rparr> \<in> set results"
    unfolding run prod.case by blast
qed

text \<open>The theorem at a concrete invocation.\<close>

theorem unknown_tool_witness:
  "''bogus'' \<notin> fst ` set demo_registry
   \<and> registry_execute demo_tool_execute demo_registry ''bogus'' [(''query'', StrArg ''x'')]
       = (Inr (''Tool '' @ [CHR 0x27] @ ''bogus'' @ [CHR 0x27] @ '' not found''), demo_registry)
   \<and> map (\<lambda>c. api_messages (fst c)) (new_model_calls (start bogus_then_done)
        (snd (snd (generate_response scripted (registry_execute demo_tool_execute) demo_generator
           ''q'' None demo_schemas (Some demo_registry) (start bogus_then_done)))))
     = [[\<lparr>role = ''user'', msg_content = Text ''q''\<rparr>],
        [\<lparr>role = ''user'', msg_content = Text ''q''\<rparr>,
         \<lparr>role = ''assistant'', msg_content = Blocks (content (tool_response ''bogus'' ''t1''))\<rparr>,
         \<lparr>role = ''user'', msg_content = Results
            [\<lparr>tool_use_id = ''t1'',
              result_content = ''Tool '' @ [CHR 0x27] @ ''bogus'' @ [CHR 0x27] @ '' not found''\<rparr>]\<rparr>]]
   \<and> fst (generate_response scripted (registry_execute demo_tool_execute) demo_generator
           ''q'' None demo_schemas (Some demo_registry) (start bogus_then_done)) = Inr ''done''"
proof -
  have a: "''bogus'' \<notin> fst ` set demo_registry"
    by (simp add: demo_registry_def register_def)
  from unknown_tool[OF a, where tool_execute = demo_tool_execute
      and inp = "[(''query'', StrArg ''x'')]"]
  have b: "registry_execute demo_tool_execute demo_registry ''bogus'' [(''query'', StrArg ''x'')]
       = (Inr (not_found ''bogus''), demo_registry)"
    by blast
  have c: "map (\<lambda>c. api_messages (fst c)) (new_model_calls (start bogus_then_done)
        (snd (snd (generate_response scripted (registry_execute demo_tool_execute) demo_generator
           ''q'' None demo_schemas (Some demo_registry) (start bogus_then_done)))))
     = [[\<lparr>role = ''user'', msg_content = Text ''q''\<rparr>],
        [\<lparr>role = ''user'', msg_content = Text ''q''\<rparr>,
         \<lparr>role = ''assistant'', msg_content = Blocks (content (tool_response ''bogus'' ''t1''))\<rparr>,
         \<lparr>role = ''user'', msg_content = Results
            [\<lparr>tool_use_id = ''t1'', result_content = not_found ''bogus''\<rparr>]\<rparr>]]"
    "fst (generate_response scripted (registry_execute demo_tool_execute) demo_generator
           ''q'' None demo_schemas (Some demo_registry) (start bogus_then_done)) = Inr ''done''"
    by (simp_all add: run_defs bogus_then_done_def demo_registry_def register_def
        registry_execute_def)
  from a b c show ?thesis by (simp add: not_found_def)
qed

text \<open>
  C8. After an execution of the retrieval tool its citation list holds the citations of the
  rows of that execution, whatever it held before, and is empty when the execution ended in
  an error or without rows; after two executions it holds those of the second.
\<close>

theorem citations_replaced:
  "citations (snd (search_execute st tool query course lesson)) =
     (if search_error (search st query course lesson) = None \<and>
         rows (search st query course lesson) \<noteq> []
      then map (citation_of st) (rows (search st query course lesson)) else []) \<and>
   citations (snd (search_execute st (snd (search_execute st tool query course lesson))
       next_query next_course next_lesson)) =
     (if search_error (search st next_query next_course next_lesson) = None \<and>
         rows (search st next_query next_course next_lesson) \<noteq> []
      then map (citation_of st) (rows (search st next_query next_course next_lesson)) else [])"
proof -
  have one: "citations (snd (search_execute st t q c l)) =
     (if search_error (search st q c l) = None \<and> rows (search st q c l) \<noteq> []
      then map (citation_of st) (rows (search st q c l)) else [])" for t q c l
    by (cases "search_error (search st q c l)")
       (simp_all add: search_execute_def Let_def format_results_def)
  show ?thesis by (simp only: one simp_thms)
qed

text \<open>The theorem at concrete inputs.\<close>

theorem citations_replaced_witness:
  "citations (snd (search_execute demo_store fresh_tool ''ml'' None None))
     = [\<lparr>display_text = ''Lesson 1: What is ML?'', url = Some ''https://example.com/lesson1''\<rparr>,
        \<lparr>display_text = ''Intro to ML'', url = None\<rparr>]
   \<and> citations (snd (search_execute demo_store
        (snd (search_execute demo_store fresh_tool ''ml'' None None)) ''regression'' None None))
     = [\<lparr>display_text = ''Lesson 2'', url = None\<rparr>]
   \<and> citations (snd (search_execute demo_store
        (snd (search_execute demo_store fresh_tool ''ml'' None None)) ''down'' None None)) = []
   \<and> citations (snd (search_execute demo_store
        (snd (search_execute demo_store fresh_tool ''ml'' None None)) ''x'' None None)) = []"
proof -
  note t = citations_replaced[where st = demo_store and tool = fresh_tool and query = "''ml''"
      and course = None and lesson = None and next_course = None and next_lesson = None]
  note ev = demo_store_def demo_search_def demo_lesson_info_def rows_def citation_of_def
    str_int_def str_nat_digit
  from t[where next_query = "''regression''"] t[where next_query = "''down''"]
    t[where next_query = "''x''"]
  show ?thesis by (simp add: ev)
qed

text \<open>
  C9 (as amended). Without a tool manager no tool is executed. A first response, also one
  that stops for tool use, ends the invocation after that one model call; the returned
  string is the text of the first block when it is not empty, \<open>No response generated\<close>
  when it is empty, and \<open>Error: \<close> with the message when reading the text raises
  (\<open>text_result\<close>).
\<close>

theorem no_tool_manager:
  "case generate_response create exec self query hist tls None w of
     (res, st', w') \<Rightarrow>
       new_tool_calls w w' = [] \<and>
       (\<forall>r. outcome create w (first_params self query hist tls) = Inr r \<longrightarrow>
          new_model_calls w w' = [(first_params self query hist tls, Inr r)] \<and>
          res = Inr (text_result r) \<and>
          (\<forall>t bs. content r = TextBlock t # bs \<and> t \<noteq> [] \<longrightarrow> res = Inr t))"
proof (cases "outcome create w (first_params self query hist tls)")
  case (Inl e)
  from rounds_raise[of create w self "initial_state query tls None" "system_content_of self hist",
      unfolded first_params_eq, OF Inl, where exec = exec and n = 1 and rest = "[2]"] Inl
  show ?thesis by (simp add: generate_response_rounds)
next
  case (Inr r)
  from generate_response_plain[OF Inr, where tm = None and exec = exec] Inr
  show ?thesis by (auto simp: text_result_def first_text_def)
qed

text \<open>The theorem at a concrete invocation.\<close>

theorem no_tool_manager_witness:
  "outcome scripted (start [Inr narrated_tool_use])
      (first_params demo_generator ''q'' None demo_schemas) = Inr narrated_tool_use
   \<and> fst (generate_response scripted demo_tools demo_generator ''q'' None demo_schemas None
          (start [Inr narrated_tool_use])) = Inr ''Let me search.''
   \<and> new_tool_calls (start [Inr narrated_tool_use])
        (snd (snd (generate_response scripted demo_tools demo_generator ''q'' None demo_schemas
           None (start [Inr narrated_tool_use])))) = []"
proof -
  have h: "outcome scripted (start [Inr narrated_tool_use])
      (first_params demo_generator ''q'' None demo_schemas) = Inr narrated_tool_use"
    by (simp add: outcome_def start_def)
  from no_tool_manager[where create = scripted and exec = demo_tools and self = demo_generator
      and query = "''q''" and hist = None and tls = demo_schemas
      and w = "start [Inr narrated_tool_use]"] h
  show ?thesis by (simp add: narrated_tool_use_def split: prod.splits)
qed

text \<open>
  C9 as stated fails when the first block's text is empty: reading it does not raise, and
  the returned string is not that text.
\<close>

theorem no_tool_manager_counterexample:
  "stop_reason silent_tool_use = ''tool_use'' \<and>
   first_text (content silent_tool_use) = Inr [] \<and>
   fst (generate_response scripted demo_tools demo_generator ''q'' None demo_schemas None
          (start [Inr silent_tool_use])) = Inr ''No response generated''"
  by (simp add: run_defs silent_tool_use_def)

text \<open>
  C10. When a round ends the loop without tool calls and without an error, and the final
  text taken from the model response is empty or absent, the loop of
  \<^verbatim>\<open>generate_response\<close> returns the string \<open>No response generated\<close>. The
  theorem holds for every round \<open>n\<close> of the loop; the witness is a first model
  response whose text is empty.
\<close>

theorem no_response_generated:
  assumes "execute_single_round create exec self (state\<lparr>round_count := n\<rparr>) sys w = (rr, st1, w1)"
    and "\<not> has_tool_calls rr" and "error rr = None"
    and "final_text rr = None \<or> final_text rr = Some []"
  shows "rounds create exec self sys (n # rest) state w = (Inr ''No response generated'', st1, w1)"
  using assms by (auto simp: rounds.simps should_terminate_def truthy_def)

theorem no_response_generated_witness:
  "\<not> has_tool_calls (fst (execute_single_round scripted demo_tools demo_generator
        ((initial_state ''q'' (None :: string list option) None)\<lparr>round_count := 1\<rparr>)
        (system_content_of demo_generator None) (start [Inr (text_response [])])))
   \<and> final_text (fst (execute_single_round scripted demo_tools demo_generator
        ((initial_state ''q'' (None :: string list option) None)\<lparr>round_count := 1\<rparr>)
        (system_content_of demo_generator None) (start [Inr (text_response [])]))) = Some []
   \<and> fst (generate_response scripted demo_tools demo_generator ''q'' None
        (None :: string list option) None (start [Inr (text_response [])]))
     = Inr ''No response generated''"
proof -
  let ?st = "(initial_state ''q'' None None :: (string, unit) conversation_state)"
  let ?w = "start [Inr (text_response [])] :: ((string + response) list, string) world"
  let ?sys = "system_content_of demo_generator None"
  obtain rr st1 w1 where
    e: "execute_single_round scripted demo_tools demo_generator (?st\<lparr>round_count := 1\<rparr>) ?sys ?w
          = (rr, st1, w1)"
    by (cases "execute_single_round scripted demo_tools demo_generator
          (?st\<lparr>round_count := 1\<rparr>) ?sys ?w") auto
  from e have rr: "\<not> has_tool_calls rr" "error rr = None" "final_text rr = Some []"
    by (auto simp: execute_single_round_def call_model_def start_def text_response_def
        first_text_def)
  from rr(3) have ft: "final_text rr = None \<or> final_text rr = Some []" by simp
  have "rounds scripted demo_tools demo_generator ?sys (1 # [2]) ?st ?w
          = (Inr ''No response generated'', st1, w1)"
    by (rule no_response_generated[OF e rr(1) rr(2) ft])
  then have "fst (generate_response scripted demo_tools demo_generator ''q'' None None None ?w)
          = Inr ''No response generated''"
    by (simp only: generate_response_rounds fst_conv)
  with e rr show ?thesis by simp
qed

end
